theory Spec2Isabelle
  imports Main "HOL-Library.Word"
begin

unbundle bit_operations_syntax

section \<open>Format and geometry model (definitions.hpp)\<close>

text \<open>
  The C++ enumerations \<^verbatim>\<open>FPS\<close>, \<^verbatim>\<open>PixelDimension\<close> and \<^verbatim>\<open>PixelFormat\<close> are
  \<^verbatim>\<open>enum class X : uint32_t\<close>: a value of such a type is any 32-bit value (the engine
  itself checks the encoding against the two supported codes), so each is modelled as a
  32-bit word with one named constant per enumerator. Pointers and \<^verbatim>\<open>size_t\<close> are
  64-bit words (LP64 Linux), \<^verbatim>\<open>int\<close> file descriptors and \<^verbatim>\<open>errno\<close> are integers.
\<close>

type_synonym u32 = "32 word"
type_synonym u64 = "64 word"

definition FPS_15 :: u32 where "FPS_15 = 15"
definition FPS_30 :: u32 where "FPS_30 = 30"
definition FPS_60 :: u32 where "FPS_60 = 60"

definition dimensions_compress :: "u32 \<Rightarrow> u32 \<Rightarrow> u32" where
  "dimensions_compress width height = push_bit 16 width OR height"

definition dimensions_decompress :: "u32 \<Rightarrow> u32 \<times> u32" where
  "dimensions_decompress dimensions = (drop_bit 16 dimensions, dimensions AND 0xFFFF)"

definition dimensions_size :: "u32 \<times> u32 \<Rightarrow> u32" where
  "dimensions_size dimensions = fst dimensions * snd dimensions"

definition DIM_HD :: u32 where "DIM_HD = dimensions_compress 1280 720"
definition DIM_FHD :: u32 where "DIM_FHD = dimensions_compress 1920 1080"
definition DIM_2K :: u32 where "DIM_2K = dimensions_compress 2048 1080"
definition DIM_4K :: u32 where "DIM_4K = dimensions_compress 3840 2160"

text \<open>
  \<^verbatim>\<open>make_fourcc\<close> converts each \<^verbatim>\<open>char\<close> to \<^verbatim>\<open>uint32_t\<close>; the enumerators only pass
  ASCII letters, where the conversion is the character code.
\<close>

definition make_fourcc :: "char \<Rightarrow> char \<Rightarrow> char \<Rightarrow> char \<Rightarrow> u32" where
  "make_fourcc a b c d =
     of_char a OR push_bit 8 (of_char b) OR push_bit 16 (of_char c) OR push_bit 24 (of_char d)"

definition MJPG :: u32 where "MJPG = make_fourcc CHR ''M'' CHR ''J'' CHR ''P'' CHR ''G''"
definition YUYV :: u32 where "YUYV = make_fourcc CHR ''Y'' CHR ''U'' CHR ''Y'' CHR ''V''"

text \<open>
  The two codes of \<^verbatim>\<open>linux/videodev2.h\<close> that \<^verbatim>\<open>configure\<close> compares with; the
  headers assert \<^verbatim>\<open>PixelFormat::MJPG == V4L2_PIX_FMT_MJPEG == 0x47504A4D\<close> and
  \<^verbatim>\<open>PixelFormat::YUYV == 0x56595559\<close>.
\<close>

definition V4L2_PIX_FMT_MJPEG :: u32 where "V4L2_PIX_FMT_MJPEG = 0x47504A4D"
definition V4L2_PIX_FMT_YUYV :: u32 where "V4L2_PIX_FMT_YUYV = 0x56595559"

record V4l2Config =
  device_path :: string
  dimension :: u32
  format_cfg :: u32
  fps_num :: u32
  buffer_count :: u32

record V4lCaps =
  driver :: string
  card_name :: string

text \<open>A \<^verbatim>\<open>std::span<std::byte const>\<close>: the address of the first byte and the length.\<close>

record byte_span =
  span_data :: u64
  span_size :: u64

record FrameView =
  timestamp_monotonic_us :: u64
  v4l2_timestamp_us :: u64
  image_span :: byte_span
  width :: u32
  height :: u32
  format :: u32

record MappedBuffer =
  data :: u64
  size_mb :: u64

definition nullptr :: u64 where "nullptr = 0"
definition MAP_FAILED :: u64 where "MAP_FAILED = - 1"

definition is_valid :: "MappedBuffer \<Rightarrow> bool" where
  "is_valid b = (data b \<noteq> nullptr \<and> data b \<noteq> MAP_FAILED)"

section \<open>The capture engine and its kernel (v4l2.hpp, v4l2.cpp)\<close>

text \<open>
  The members of \<^verbatim>\<open>V4l2Config\<close> and of the engine are written without the trailing
  underscore of the source (\<^verbatim>\<open>fd_\<close> is \<open>fd\<close>, \<^verbatim>\<open>config_.format_\<close> is
  \<open>format_cfg (config c)\<close>).
\<close>

record camera =
  config :: V4l2Config
  fd :: int
  configured :: bool
  last_buf_index :: "u32 option"
  buffers :: "MappedBuffer list"
  caps :: V4lCaps

text \<open>
  Every system call of the engine is recorded, with the arguments the engine fills in:
  the trace of a run is the list of its calls, oldest first. An \<^verbatim>\<open>ioctl\<close> carries the
  file descriptor and the request; \<^verbatim>\<open>VIDIOC_S_FMT\<close> its width, height and pixel
  format, \<^verbatim>\<open>VIDIOC_S_PARM\<close> the numerator and denominator of the time per frame,
  \<^verbatim>\<open>VIDIOC_REQBUFS\<close> the requested count, \<^verbatim>\<open>VIDIOC_QUERYBUF\<close> and
  \<^verbatim>\<open>VIDIOC_QBUF\<close> the buffer index. \<^verbatim>\<open>mmap\<close> carries length, descriptor and
  offset, \<^verbatim>\<open>munmap\<close> address and length.
\<close>

datatype request =
    VIDIOC_S_FMT u32 u32 u32
  | VIDIOC_G_FMT
  | VIDIOC_S_PARM u32 u32
  | VIDIOC_REQBUFS u32
  | VIDIOC_QUERYBUF u32
  | VIDIOC_QBUF u32
  | VIDIOC_DQBUF

datatype hw_call =
    ioctl int request
  | mmap u64 int u32
  | munmap u64 u64
  | close int

text \<open>What \<^verbatim>\<open>VIDIOC_DQBUF\<close> writes into the \<^verbatim>\<open>v4l2_buffer\<close> that the engine reads.\<close>

record v4l2_buffer =
  index :: u32
  bytesused :: u32
  tv_sec :: u64
  tv_usec :: u64

text \<open>
  The kernel is a parameter of every operation. Each reply is a function of the whole
  trace up to and including the call it answers, so a kernel may answer the same request
  differently each time. An \<^verbatim>\<open>ioctl\<close> that returns a negative value replies
  \<open>Inl errno\<close>; otherwise it replies \<open>Inr\<close> with the fields the engine reads back: the
  pixel format for \<^verbatim>\<open>S_FMT\<close> and \<^verbatim>\<open>G_FMT\<close>, the granted count for
  \<^verbatim>\<open>REQBUFS\<close>, length and offset for \<^verbatim>\<open>QUERYBUF\<close>. \<^verbatim>\<open>mmap\<close> replies an
  address, \<open>MAP_FAILED\<close> on failure.
\<close>

record kernel =
  reply_S_FMT :: "hw_call list \<Rightarrow> int + u32"
  reply_G_FMT :: "hw_call list \<Rightarrow> int + u32"
  reply_S_PARM :: "hw_call list \<Rightarrow> int + unit"
  reply_REQBUFS :: "hw_call list \<Rightarrow> int + u32"
  reply_QUERYBUF :: "hw_call list \<Rightarrow> int + (u32 \<times> u32)"
  reply_mmap :: "hw_call list \<Rightarrow> u64"
  reply_QBUF :: "hw_call list \<Rightarrow> int + unit"
  reply_DQBUF :: "hw_call list \<Rightarrow> int + v4l2_buffer"

datatype stream = stdout | stderr

text \<open>
  The world of one engine: the object, the trace of system calls and what was printed.
\<close>

record world =
  cam :: camera
  hw :: "hw_call list"
  console :: "(stream \<times> string) list"

text \<open>
  The exceptions of the engine, one constructor per \<^verbatim>\<open>throw\<close>, with the values its
  message is formatted from (\<^verbatim>\<open>strerror(errno)\<close> as the \<^verbatim>\<open>errno\<close>).
  \<open>vector_out_of_range\<close> stands for an access \<^verbatim>\<open>buffers_[i]\<close> outside the vector,
  which C++ leaves undefined. An operation returns the exception or its value, and the
  world as the operation left it: what was changed before a \<^verbatim>\<open>throw\<close> stays changed.
\<close>

datatype error =
    unsupported_pixel_format u32
  | S_FMT_failed int
  | driver_rejected_pixel_format u32 u32
  | G_FMT_failed
  | driver_format_mismatch u32 u32
  | S_PARM_failed int
  | REQBUFS_failed int
  | QUERYBUF_failed nat int
  | mmap_failed nat
  | QBUF_failed_at nat int
  | DQBUF_failed
  | DQBUF_invalid_index u32
  | QBUF_failed_for u32
  | vector_out_of_range nat

definition EBUSY :: int where "EBUSY = 16"

definition do_call :: "hw_call \<Rightarrow> world \<Rightarrow> world" where
  "do_call c w = w\<lparr>hw := hw w @ [c]\<rparr>"

definition print :: "stream \<Rightarrow> string \<Rightarrow> world \<Rightarrow> world" where
  "print s msg w = w\<lparr>console := console w @ [(s, msg)]\<rparr>"

definition and_then ::
  "(error + unit) \<times> world \<Rightarrow> (world \<Rightarrow> (error + unit) \<times> world) \<Rightarrow> (error + unit) \<times> world" where
  "and_then r f = (case r of (Inl e, w) \<Rightarrow> (Inl e, w) | (Inr u, w) \<Rightarrow> f w)"

text \<open>
  \<^verbatim>\<open>fourcc_str\<close> fills a five-byte array ending in NUL and returns a string view of
  it, which stops at the first NUL byte.
\<close>

definition fourcc_str :: "u32 \<Rightarrow> string" where
  "fourcc_str fourcc =
     takeWhile (\<lambda>c. c \<noteq> CHR 0x00)
       [char_of (unat (fourcc AND 0xFF)),
        char_of (unat (drop_bit 8 fourcc AND 0xFF)),
        char_of (unat (drop_bit 16 fourcc AND 0xFF)),
        char_of (unat (drop_bit 24 fourcc AND 0xFF))]"

subsection \<open>configure\<close>

text \<open>
  \<^verbatim>\<open>configure\<close> is one C++ function; its body after the guard is modelled in the five
  blocks its comments separate, run in order until the first \<^verbatim>\<open>throw\<close>. The first
  block validates the encoding, sets the format, compares the driver's answer with the
  request, stores the confirmed encoding and reads the format back.
\<close>

definition negotiate_format :: "kernel \<Rightarrow> world \<Rightarrow> (error + unit) \<times> world" where
  "negotiate_format K w =
     (let (width, height) = dimensions_decompress (dimension (config (cam w)));
          requested_fourcc = format_cfg (config (cam w))
      in if requested_fourcc \<noteq> V4L2_PIX_FMT_MJPEG \<and> requested_fourcc \<noteq> V4L2_PIX_FMT_YUYV
         then (Inl (unsupported_pixel_format requested_fourcc), w)
         else
           let w1 = do_call (ioctl (fd (cam w)) (VIDIOC_S_FMT width height requested_fourcc)) w
           in case reply_S_FMT K (hw w1) of
                Inl errno \<Rightarrow>
                  (Inl (S_FMT_failed errno),
                   if errno = EBUSY
                   then print stderr
                          (''device busy during VIDIOC_S_FMT: '' @ device_path (config (cam w1))
                             @ [CHR 0x0A]) w1
                   else w1)
              | Inr pixelformat \<Rightarrow>
                  if pixelformat \<noteq> requested_fourcc
                  then (Inl (driver_rejected_pixel_format requested_fourcc pixelformat), w1)
                  else
                    let w2 = print stdout
                               (''NEGOTIATED PIXEL FORMAT: '' @ fourcc_str pixelformat @ [CHR 0x0A]) w1;
                        w3 = w2\<lparr>cam := (cam w2)\<lparr>config := (config (cam w2))\<lparr>format_cfg := pixelformat\<rparr>\<rparr>\<rparr>;
                        w4 = do_call (ioctl (fd (cam w3)) VIDIOC_G_FMT) w3
                    in (case reply_G_FMT K (hw w4) of
                          Inl errno \<Rightarrow> (Inl G_FMT_failed, w4)
                        | Inr check_pixelformat \<Rightarrow>
                            if check_pixelformat \<noteq> format_cfg (config (cam w4))
                            then (Inl (driver_format_mismatch check_pixelformat
                                         (format_cfg (config (cam w4)))), w4)
                            else (Inr (), w4)))"

definition set_frame_rate :: "kernel \<Rightarrow> world \<Rightarrow> (error + unit) \<times> world" where
  "set_frame_rate K w =
     (let w1 = do_call (ioctl (fd (cam w)) (VIDIOC_S_PARM 1 (fps_num (config (cam w))))) w
      in case reply_S_PARM K (hw w1) of
           Inl errno \<Rightarrow> (Inl (S_PARM_failed errno), w1)
         | Inr u \<Rightarrow> (Inr (), w1))"

text \<open>The count that \<^verbatim>\<open>VIDIOC_REQBUFS\<close> writes back into \<^verbatim>\<open>req.count\<close> is not read.\<close>

definition request_buffers :: "kernel \<Rightarrow> world \<Rightarrow> (error + unit) \<times> world" where
  "request_buffers K w =
     (let w1 = do_call (ioctl (fd (cam w)) (VIDIOC_REQBUFS (buffer_count (config (cam w))))) w
      in case reply_REQBUFS K (hw w1) of
           Inl errno \<Rightarrow> (Inl (REQBUFS_failed errno), w1)
         | Inr granted \<Rightarrow> (Inr (), w1))"

text \<open>
  The body of the mapping loop at index \<open>i\<close>: query the buffer, map it, record address
  and length in \<^verbatim>\<open>buffers_[i]\<close>. The index is a \<^verbatim>\<open>size_t\<close> below a 32-bit count,
  so it never wraps.
\<close>

definition map_buffer :: "kernel \<Rightarrow> nat \<Rightarrow> world \<Rightarrow> (error + unit) \<times> world" where
  "map_buffer K i w =
     (let w1 = do_call (ioctl (fd (cam w)) (VIDIOC_QUERYBUF (of_nat i))) w
      in case reply_QUERYBUF K (hw w1) of
           Inl errno \<Rightarrow> (Inl (QUERYBUF_failed i errno), w1)
         | Inr (len, offset) \<Rightarrow>
             let w2 = do_call (mmap (ucast len) (fd (cam w1)) offset) w1;
                 mapped = reply_mmap K (hw w2)
             in if mapped = MAP_FAILED then (Inl (mmap_failed i), w2)
                else if length (buffers (cam w2)) \<le> i then (Inl (vector_out_of_range i), w2)
                else (Inr (),
                      w2\<lparr>cam := (cam w2)\<lparr>buffers :=
                        (buffers (cam w2))[i := \<lparr>data = mapped, size_mb = ucast len\<rparr>]\<rparr>\<rparr>))"

definition enqueue_buffer :: "kernel \<Rightarrow> nat \<Rightarrow> world \<Rightarrow> (error + unit) \<times> world" where
  "enqueue_buffer K i w =
     (let w1 = do_call (ioctl (fd (cam w)) (VIDIOC_QBUF (of_nat i))) w
      in case reply_QBUF K (hw w1) of
           Inl errno \<Rightarrow> (Inl (QBUF_failed_at i errno), w1)
         | Inr u \<Rightarrow> (Inr (), w1))"

text \<open>
  The two loops, from index \<open>i\<close> on; the bound \<^verbatim>\<open>config_.buffer_count_\<close> is read at
  every iteration, and an exception of the body ends the loop.
\<close>

function map_buffers :: "kernel \<Rightarrow> nat \<Rightarrow> world \<Rightarrow> (error + unit) \<times> world" where
  "map_buffers K i w =
     (if i < unat (buffer_count (config (cam w))) then
        case map_buffer K i w of
          (Inl e, w1) \<Rightarrow> (Inl e, w1)
        | (Inr u, w1) \<Rightarrow> map_buffers K (Suc i) w1
      else (Inr (), w))"
  by pat_completeness auto
termination
  by (relation "measure (\<lambda>(K, i, w). unat (buffer_count (config (cam w))) - i)")
     (auto simp: map_buffer_def do_call_def Let_def split: sum.splits prod.splits if_splits)

function enqueue_buffers :: "kernel \<Rightarrow> nat \<Rightarrow> world \<Rightarrow> (error + unit) \<times> world" where
  "enqueue_buffers K i w =
     (if i < unat (buffer_count (config (cam w))) then
        case enqueue_buffer K i w of
          (Inl e, w1) \<Rightarrow> (Inl e, w1)
        | (Inr u, w1) \<Rightarrow> enqueue_buffers K (Suc i) w1
      else (Inr (), w))"
  by pat_completeness auto
termination
  by (relation "measure (\<lambda>(K, i, w). unat (buffer_count (config (cam w))) - i)")
     (auto simp: enqueue_buffer_def do_call_def Let_def split: sum.splits)

declare map_buffers.simps [simp del]
declare enqueue_buffers.simps [simp del]

definition configure :: "kernel \<Rightarrow> world \<Rightarrow> (error + unit) \<times> world" where
  "configure K w =
     (if fd (cam w) < 0 \<or> configured (cam w) then (Inr (), w)
      else
        and_then (negotiate_format K w) (\<lambda>w1.
        and_then (set_frame_rate K w1) (\<lambda>w2.
        and_then (request_buffers K w2) (\<lambda>w3.
        and_then (map_buffers K 0 w3) (\<lambda>w4.
        and_then (enqueue_buffers K 0 w4) (\<lambda>w5.
          (Inr (), w5\<lparr>cam := (cam w5)\<lparr>configured := True\<rparr>\<rparr>)))))))"

subsection \<open>capture_frame, release_frame, has_valid_frame\<close>

text \<open>
  \<^verbatim>\<open>capture_frame\<close> reads the steady clock once, after the checks; the reading is the
  argument \<open>now\<close>. The driver's \<^verbatim>\<open>tv_sec\<close> and \<^verbatim>\<open>tv_usec\<close> are converted to
  \<^verbatim>\<open>uint64_t\<close>, so the timestamp is computed on 64-bit words.
\<close>

definition capture_frame :: "kernel \<Rightarrow> u64 \<Rightarrow> world \<Rightarrow> (error + FrameView) \<times> world" where
  "capture_frame K now w =
     (let w1 = do_call (ioctl (fd (cam w)) VIDIOC_DQBUF) w
      in case reply_DQBUF K (hw w1) of
           Inl errno \<Rightarrow> (Inl DQBUF_failed, w1)
         | Inr buf \<Rightarrow>
             if length (buffers (cam w1)) \<le> unat (index buf)
             then (Inl (DQBUF_invalid_index (index buf)), w1)
             else
               let w2 = w1\<lparr>cam := (cam w1)\<lparr>last_buf_index := Some (index buf)\<rparr>\<rparr>;
                   mapped = buffers (cam w2) ! unat (index buf);
                   (width, height) = dimensions_decompress (dimension (config (cam w2)));
                   v4l2_ts_us = tv_sec buf * 1000000 + tv_usec buf
               in (Inr \<lparr>timestamp_monotonic_us = now,
                        v4l2_timestamp_us = v4l2_ts_us,
                        image_span = \<lparr>span_data = data mapped, span_size = ucast (bytesused buf)\<rparr>,
                        width = width,
                        height = height,
                        format = format_cfg (config (cam w2))\<rparr>, w2))"

definition release_frame :: "kernel \<Rightarrow> world \<Rightarrow> (error + unit) \<times> world" where
  "release_frame K w =
     (case last_buf_index (cam w) of
        None \<Rightarrow>
          (Inr (),
           print stderr
             (''WARN: release_frame called without valid last_buf_index_'' @ [CHR 0x0A]) w)
      | Some i \<Rightarrow>
          let w1 = do_call (ioctl (fd (cam w)) (VIDIOC_QBUF i)) w
          in (case reply_QBUF K (hw w1) of
                Inl errno \<Rightarrow> (Inl (QBUF_failed_for i), w1)
              | Inr u \<Rightarrow> (Inr (), w1\<lparr>cam := (cam w1)\<lparr>last_buf_index := None\<rparr>\<rparr>)))"

definition has_valid_frame :: "camera \<Rightarrow> bool" where
  "has_valid_frame c = (last_buf_index c \<noteq> None)"

subsection \<open>cleanup and the move operations\<close>

text \<open>
  \<^verbatim>\<open>cleanup\<close> ignores what \<^verbatim>\<open>munmap\<close> and \<^verbatim>\<open>close\<close> return, so it needs no
  kernel. \<open>cleanup_buffers\<close> is its loop over the vector: the entries as it leaves them
  and the calls it makes, in order.
\<close>

fun cleanup_buffers :: "MappedBuffer list \<Rightarrow> MappedBuffer list \<times> hw_call list" where
  "cleanup_buffers [] = ([], [])"
| "cleanup_buffers (buf # rest) =
     (let (rest', calls) = cleanup_buffers rest
      in if is_valid buf
         then (\<lparr>data = nullptr, size_mb = 0\<rparr> # rest', munmap (data buf) (size_mb buf) # calls)
         else (buf # rest', calls))"

definition cleanup :: "world \<Rightarrow> world" where
  "cleanup w =
     (let (bufs, calls) = cleanup_buffers (buffers (cam w));
          w1 = w\<lparr>cam := (cam w)\<lparr>buffers := bufs\<rparr>, hw := hw w @ calls\<rparr>;
          w2 = (if 0 \<le> fd (cam w1) then do_call (close (fd (cam w1))) w1 else w1)
      in w2\<lparr>cam := (cam w2)\<lparr>fd := - 1\<rparr>\<rparr>)"

text \<open>
  The loop of both move operations: \<^verbatim>\<open>buffers_[i] = other.buffers_[i]\<close> for every
  \<open>i\<close> below the count \<open>n\<close>; \<open>None\<close> when an index is outside either vector.
\<close>

function copy_buffers ::
  "nat \<Rightarrow> nat \<Rightarrow> MappedBuffer list \<Rightarrow> MappedBuffer list \<Rightarrow> MappedBuffer list option" where
  "copy_buffers i n dst src =
     (if i < n then
        if i < length dst \<and> i < length src
        then copy_buffers (Suc i) n (dst[i := src ! i]) src
        else None
      else Some dst)"
  by pat_completeness auto
termination
  by (relation "measure (\<lambda>(i, n, dst, src). n - i)") auto

declare copy_buffers.simps [simp del]

text \<open>
  A moved-from \<^verbatim>\<open>std::string\<close> is left empty (as libstdc++ does); a moved-from
  \<^verbatim>\<open>std::optional<uint32_t>\<close> keeps its value.
\<close>

definition moved_from :: "camera \<Rightarrow> camera" where
  "moved_from other =
     other\<lparr>config := (config other)\<lparr>device_path := []\<rparr>,
           caps := \<lparr>driver = [], card_name = []\<rparr>\<rparr>"

text \<open>
  Move assignment \<^verbatim>\<open>*this = std::move(other)\<close> of two distinct objects: the world of
  \<^verbatim>\<open>this\<close> and the object \<^verbatim>\<open>other\<close> go in; the result, the world of
  \<^verbatim>\<open>this\<close> and \<^verbatim>\<open>other\<close> as it is left come out. \<^verbatim>\<open>configured_\<close> is not
  assigned.
\<close>

definition move_assign :: "world \<Rightarrow> camera \<Rightarrow> (error + unit) \<times> world \<times> camera" where
  "move_assign w other =
     (let w1 = cleanup w;
          this1 = (cam w1)\<lparr>config := config other, fd := fd other,
                    last_buf_index := last_buf_index other, caps := caps other\<rparr>;
          other1 = moved_from other
      in case copy_buffers 0 (unat (buffer_count (config this1))) (buffers this1) (buffers other1) of
           None \<Rightarrow> (Inl (vector_out_of_range (min (length (buffers this1)) (length (buffers other1)))),
                     w1\<lparr>cam := this1\<rparr>, other1)
         | Some bufs \<Rightarrow> (Inr (), w1\<lparr>cam := this1\<lparr>buffers := bufs\<rparr>\<rparr>, other1\<lparr>fd := - 1\<rparr>))"

text \<open>
  The move constructor initialises \<^verbatim>\<open>config_\<close>, \<^verbatim>\<open>fd_\<close>, \<^verbatim>\<open>last_buf_index_\<close>
  and \<^verbatim>\<open>caps_\<close>; \<^verbatim>\<open>buffers_\<close> starts empty and \<^verbatim>\<open>configured_\<close> holds whatever
  the memory held, the argument \<open>garbage\<close>.
\<close>

definition move_construct :: "bool \<Rightarrow> camera \<Rightarrow> (error + camera) \<times> camera" where
  "move_construct garbage other =
     (let this1 = \<lparr>config = config other, fd = fd other, configured = garbage,
                    last_buf_index = last_buf_index other, buffers = [], caps = caps other\<rparr>;
          other1 = moved_from other
      in case copy_buffers 0 (unat (buffer_count (config this1))) (buffers this1) (buffers other1) of
           None \<Rightarrow> (Inl (vector_out_of_range 0), other1)
         | Some bufs \<Rightarrow> (Inr (this1\<lparr>buffers := bufs\<rparr>), other1\<lparr>fd := - 1\<rparr>))"

text \<open>The constructor from a configuration.\<close>

definition V4L2Camera :: "V4l2Config \<Rightarrow> camera" where
  "V4L2Camera cfg =
     \<lparr>config = cfg, fd = - 1, configured = False, last_buf_index = None,
      buffers = replicate (unat (buffer_count cfg)) \<lparr>data = nullptr, size_mb = 0\<rparr>,
      caps = \<lparr>driver = [], card_name = []\<rparr>\<rparr>"

section \<open>Observing a run\<close>

text \<open>
  The buffer index a system call names, if it names one, and the indices a list of calls
  names, in order. \<open>new_calls w w'\<close> are the calls made between the worlds \<open>w\<close> and
  \<open>w'\<close> of one run.
\<close>

fun buffer_index_of :: "hw_call \<Rightarrow> u32 option" where
  "buffer_index_of (ioctl f (VIDIOC_QUERYBUF i)) = Some i"
| "buffer_index_of (ioctl f (VIDIOC_QBUF i)) = Some i"
| "buffer_index_of c = None"

fun touched :: "hw_call list \<Rightarrow> u32 list" where
  "touched [] = []"
| "touched (c # cs) = (case buffer_index_of c of None \<Rightarrow> touched cs | Some i \<Rightarrow> i # touched cs)"








text \<open>
  \<open>advances w w' ts\<close>: the world \<open>w'\<close> continues \<open>w\<close> with the same configuration,
  descriptor, marker and pool size, and the calls made in between name the buffer
  indices \<open>ts\<close>.
\<close>

definition advances :: "world \<Rightarrow> world \<Rightarrow> u32 list \<Rightarrow> bool" where
  "advances w w' ts =
     (config (cam w') = config (cam w) \<and> fd (cam w') = fd (cam w) \<and>
      last_buf_index (cam w') = last_buf_index (cam w) \<and>
      length (buffers (cam w')) = length (buffers (cam w)) \<and>
      (\<exists>calls. hw w' = hw w @ calls \<and> touched calls = ts))"

definition warn_release :: string where
  "warn_release = ''WARN: release_frame called without valid last_buf_index_'' @ [CHR 0x0A]"

section \<open>Example kernels and worlds\<close>

text \<open>
  The configuration \<^verbatim>\<open>V4l2Config{}\<close> with its default member values, and the same
  with two buffers.
\<close>

definition default_config :: V4l2Config where
  "default_config =
     \<lparr>device_path = ''/dev/video0'', dimension = DIM_4K, format_cfg = MJPG,
      fps_num = FPS_30, buffer_count = 4\<rparr>"

definition two_config :: V4l2Config where
  "two_config = default_config\<lparr>buffer_count := 2\<rparr>"

definition dqbuf_calls :: "hw_call list \<Rightarrow> nat" where
  "dqbuf_calls tr = length (filter (\<lambda>c. case c of ioctl f VIDIOC_DQBUF \<Rightarrow> True | _ \<Rightarrow> False) tr)"

text \<open>
  A device with two buffers of 4096 bytes: it accepts the format it is asked for, reports
  MJPEG as the live format, grants at most two buffers, rejects a query for any other
  index with \<^verbatim>\<open>EINVAL\<close>, and hands out buffer 0 at the first dequeue and buffer 1 at
  every later one.
\<close>

definition kernel_two_buffers :: kernel where
  "kernel_two_buffers =
     \<lparr>reply_S_FMT = (\<lambda>tr. case last tr of ioctl f (VIDIOC_S_FMT w h p) \<Rightarrow> Inr p | _ \<Rightarrow> Inl 22),
      reply_G_FMT = (\<lambda>tr. Inr V4L2_PIX_FMT_MJPEG),
      reply_S_PARM = (\<lambda>tr. Inr ()),
      reply_REQBUFS = (\<lambda>tr. case last tr of ioctl f (VIDIOC_REQBUFS n) \<Rightarrow> Inr (min n 2) | _ \<Rightarrow> Inl 22),
      reply_QUERYBUF = (\<lambda>tr. case last tr of
                           ioctl f (VIDIOC_QUERYBUF i) \<Rightarrow> if i < 2 then Inr (4096, 4096 * i) else Inl 22
                         | _ \<Rightarrow> Inl 22),
      reply_mmap = (\<lambda>tr. case last tr of mmap len f off \<Rightarrow> 0x7F0000000000 + ucast off | _ \<Rightarrow> MAP_FAILED),
      reply_QBUF = (\<lambda>tr. Inr ()),
      reply_DQBUF = (\<lambda>tr. Inr \<lparr>index = (if dqbuf_calls tr = 1 then 0 else 1), bytesused = 1000,
                                 tv_sec = 5, tv_usec = 7\<rparr>)\<rparr>"

text \<open>Variants: a requeue that fails, an oversized frame, an index outside the pool, a
  driver that substitutes YUYV, and one that accepts MJPEG and then reports YUYV.\<close>

definition kernel_qbuf_fails :: kernel where
  "kernel_qbuf_fails = kernel_two_buffers\<lparr>reply_QBUF := (\<lambda>tr. Inl 5)\<rparr>"



definition kernel_substitutes :: kernel where
  "kernel_substitutes = kernel_two_buffers\<lparr>reply_S_FMT := (\<lambda>tr. Inr V4L2_PIX_FMT_YUYV)\<rparr>"

definition kernel_reverts :: kernel where
  "kernel_reverts = kernel_two_buffers\<lparr>reply_G_FMT := (\<lambda>tr. Inr V4L2_PIX_FMT_YUYV)\<rparr>"

text \<open>
  A freshly constructed engine; an engine whose device was opened as descriptor 3; that
  engine after \<^verbatim>\<open>configure\<close>, after one \<^verbatim>\<open>capture_frame\<close>, after the matching
  \<^verbatim>\<open>release_frame\<close>, and after a second \<^verbatim>\<open>capture_frame\<close> with no release in
  between; and the worlds of \<^verbatim>\<open>configure\<close> after its first and second system call.
\<close>

definition closed_world :: "V4l2Config \<Rightarrow> world" where
  "closed_world cfg = \<lparr>cam = V4L2Camera cfg, hw = [], console = []\<rparr>"

definition opened_world :: "V4l2Config \<Rightarrow> world" where
  "opened_world cfg =
     \<lparr>cam = (V4L2Camera cfg)\<lparr>fd := 3, caps := \<lparr>driver = ''uvcvideo'', card_name = ''cam''\<rparr>\<rparr>,
      hw = [], console = []\<rparr>"

definition streaming_world :: world where
  "streaming_world = snd (configure kernel_two_buffers (opened_world two_config))"

definition captured_world :: world where
  "captured_world = snd (capture_frame kernel_two_buffers 99 streaming_world)"

definition released_world :: world where
  "released_world = snd (release_frame kernel_two_buffers captured_world)"

definition recaptured_world :: world where
  "recaptured_world = snd (capture_frame kernel_two_buffers 100 captured_world)"

definition set_format_world :: world where
  "set_format_world =
     do_call (ioctl 3 (VIDIOC_S_FMT 3840 2160 MJPG)) (opened_world two_config)"

definition get_format_world :: world where
  "get_format_world =
     do_call (ioctl 3 VIDIOC_G_FMT)
       (print stdout (''NEGOTIATED PIXEL FORMAT: '' @ fourcc_str MJPG @ [CHR 0x0A]) set_format_world)"

section \<open>Round trip of the packed dimensions\<close>

lemma static_assert_MJPG: "MJPG = 0x47504A4D \<and> MJPG = V4L2_PIX_FMT_MJPEG"
  by (simp add: MJPG_def make_fourcc_def V4L2_PIX_FMT_MJPEG_def)

lemma static_assert_YUYV: "YUYV = 0x56595559 \<and> YUYV = V4L2_PIX_FMT_YUYV"
  by (simp add: YUYV_def make_fourcc_def V4L2_PIX_FMT_YUYV_def)

text \<open>
  C7. For each of the four enumerated pixel dimensions (HD, FHD, 2K, 4K), packing its
  width and height with \<^verbatim>\<open>dimensions_compress\<close> and unpacking the packed value with
  \<^verbatim>\<open>dimensions_decompress\<close> gives back exactly that width and height; the enumerators
  are those packed values.
\<close>

theorem dimensions_roundtrip_enumerated:
  "dimensions_decompress (dimensions_compress 1280 720) = (1280, 720) \<and>
   dimensions_decompress (dimensions_compress 1920 1080) = (1920, 1080) \<and>
   dimensions_decompress (dimensions_compress 2048 1080) = (2048, 1080) \<and>
   dimensions_decompress (dimensions_compress 3840 2160) = (3840, 2160) \<and>
   dimensions_decompress DIM_HD = (1280, 720) \<and>
   dimensions_decompress DIM_FHD = (1920, 1080) \<and>
   dimensions_decompress DIM_2K = (2048, 1080) \<and>
   dimensions_decompress DIM_4K = (3840, 2160)"
  by (simp add: dimensions_decompress_def dimensions_compress_def
      DIM_HD_def DIM_FHD_def DIM_2K_def DIM_4K_def)

section \<open>What every phase of configure leaves unchanged\<close>

lemma touched_append: "touched (xs @ ys) = touched xs @ touched ys"
  by (induction xs) (auto split: option.splits)

lemma advances_refl: "advances w w []"
  by (simp add: advances_def)

lemma advances_trans: "advances w w1 ts1 \<Longrightarrow> advances w1 w2 ts2 \<Longrightarrow> advances w w2 (ts1 @ ts2)"
  by (auto simp: advances_def touched_append)

lemma advances_trans_nil: "advances w w1 [] \<Longrightarrow> advances w1 w2 ts \<Longrightarrow> advances w w2 ts"
  using advances_trans [of w w1 "[]" w2 ts] by simp


lemma advances_configured:
  "advances w w5 ts \<Longrightarrow> advances w (w5\<lparr>cam := (cam w5)\<lparr>configured := b\<rparr>\<rparr>) ts"
  by (simp add: advances_def)

lemma unat_of_nat_index: "i < unat (n :: u32) \<Longrightarrow> unat (of_nat i :: u32) = i"
  by (metis le_unat_uoi less_imp_le_nat)


lemma indices_below:
  "m \<le> unat (n :: u32) \<Longrightarrow> \<forall>j \<in> set (map of_nat [i..<m] :: u32 list). unat j < unat n"
  using unat_of_nat_index [of _ n] by auto

lemma indices_below_append:
  "m \<le> unat (n :: u32) \<Longrightarrow> k \<le> unat n \<Longrightarrow>
     \<forall>j \<in> set (map of_nat [0..<m] @ map of_nat [0..<k] :: u32 list). unat j < unat n"
  using indices_below [of m n 0] indices_below [of k n 0] by (simp only: set_append ball_Un) blast

lemma upt_step: "i < m \<Longrightarrow> of_nat i # map of_nat [Suc i..<m] = (map of_nat [i..<m] :: u32 list)"
  by (simp add: upt_conv_Cons)

lemma negotiate_format_advances: "negotiate_format K w = (r, w') \<Longrightarrow> advances w w' []"
  by (auto simp: negotiate_format_def do_call_def print_def Let_def advances_def
      split: sum.splits prod.splits if_splits)

lemma set_frame_rate_advances: "set_frame_rate K w = (r, w') \<Longrightarrow> advances w w' []"
  by (auto simp: set_frame_rate_def do_call_def Let_def advances_def split: sum.splits)

lemma request_buffers_advances: "request_buffers K w = (r, w') \<Longrightarrow> advances w w' []"
  by (auto simp: request_buffers_def do_call_def Let_def advances_def split: sum.splits)

lemma map_buffer_advances: "map_buffer K i w = (r, w') \<Longrightarrow> advances w w' [of_nat i]"
  by (auto simp: map_buffer_def do_call_def Let_def advances_def
      split: sum.splits prod.splits if_splits)

lemma enqueue_buffer_advances: "enqueue_buffer K i w = (r, w') \<Longrightarrow> advances w w' [of_nat i]"
  by (auto simp: enqueue_buffer_def do_call_def Let_def advances_def split: sum.splits)

text \<open>
  Each loop, started at \<open>i\<close>, names the indices \<open>i, ..., m - 1\<close> for some \<open>m\<close> up to the
  configured count, and all of them up to the count when it ends without an exception.
\<close>

lemma map_buffers_advances:
  "map_buffers K i w = (r, w') \<Longrightarrow> i \<le> unat (buffer_count (config (cam w))) \<Longrightarrow>
     \<exists>m. i \<le> m \<and> m \<le> unat (buffer_count (config (cam w))) \<and>
         (r = Inr () \<longrightarrow> m = unat (buffer_count (config (cam w)))) \<and>
         advances w w' (map of_nat [i..<m])"
proof (induction K i w arbitrary: r w' rule: map_buffers.induct)
  case (1 K i w)
  let ?n = "unat (buffer_count (config (cam w)))"
  show ?case
  proof (cases "i < ?n")
    case False
    with "1.prems" have "w' = w" "i = ?n"
      by (simp_all add: map_buffers.simps [of K i w])
    then show ?thesis using advances_refl [of w] by auto
  next
    case True
    obtain r1 w1 where step: "map_buffer K i w = (r1, w1)" by (cases "map_buffer K i w")
    have a1: "advances w w1 [of_nat i]" using map_buffer_advances [OF step] .
    show ?thesis
    proof (cases r1)
      case (Inl e)
      with "1.prems" True step have "w' = w1" "r = Inl e"
        by (simp_all add: map_buffers.simps [of K i w])
      with a1 True have "Suc i \<le> ?n \<and> r \<noteq> Inr () \<and> advances w w' (map of_nat [i..<Suc i])"
        by simp
      then show ?thesis by (metis le_SucI order_refl)
    next
      case (Inr u)
      have cfg: "config (cam w1) = config (cam w)" using a1 by (simp add: advances_def)
      have "map_buffers K (Suc i) w1 = (r, w')"
        using "1.prems" True step Inr by (simp add: map_buffers.simps [of K i w])
      then obtain m where m: "Suc i \<le> m" "m \<le> ?n" "r = Inr () \<longrightarrow> m = ?n"
          "advances w1 w' (map of_nat [Suc i..<m])"
        using "1.IH" [OF True step [symmetric] Inr] True cfg by auto
      have "advances w w' (map of_nat [i..<m])"
        using advances_trans [OF a1 m(4)] upt_step [of i m] m(1) by simp
      with m show ?thesis by (metis Suc_leD)
    qed
  qed
qed

lemma enqueue_buffers_advances:
  "enqueue_buffers K i w = (r, w') \<Longrightarrow> i \<le> unat (buffer_count (config (cam w))) \<Longrightarrow>
     \<exists>m. i \<le> m \<and> m \<le> unat (buffer_count (config (cam w))) \<and>
         (r = Inr () \<longrightarrow> m = unat (buffer_count (config (cam w)))) \<and>
         advances w w' (map of_nat [i..<m])"
proof (induction K i w arbitrary: r w' rule: enqueue_buffers.induct)
  case (1 K i w)
  let ?n = "unat (buffer_count (config (cam w)))"
  show ?case
  proof (cases "i < ?n")
    case False
    with "1.prems" have "w' = w" "i = ?n"
      by (simp_all add: enqueue_buffers.simps [of K i w])
    then show ?thesis using advances_refl [of w] by auto
  next
    case True
    obtain r1 w1 where step: "enqueue_buffer K i w = (r1, w1)" by (cases "enqueue_buffer K i w")
    have a1: "advances w w1 [of_nat i]" using enqueue_buffer_advances [OF step] .
    show ?thesis
    proof (cases r1)
      case (Inl e)
      with "1.prems" True step have "w' = w1" "r = Inl e"
        by (simp_all add: enqueue_buffers.simps [of K i w])
      with a1 True have "Suc i \<le> ?n \<and> r \<noteq> Inr () \<and> advances w w' (map of_nat [i..<Suc i])"
        by simp
      then show ?thesis by (metis le_SucI order_refl)
    next
      case (Inr u)
      have cfg: "config (cam w1) = config (cam w)" using a1 by (simp add: advances_def)
      have "enqueue_buffers K (Suc i) w1 = (r, w')"
        using "1.prems" True step Inr by (simp add: enqueue_buffers.simps [of K i w])
      then obtain m where m: "Suc i \<le> m" "m \<le> ?n" "r = Inr () \<longrightarrow> m = ?n"
          "advances w1 w' (map of_nat [Suc i..<m])"
        using "1.IH" [OF True step [symmetric] Inr] True cfg by auto
      have "advances w w' (map of_nat [i..<m])"
        using advances_trans [OF a1 m(4)] upt_step [of i m] m(1) by simp
      with m show ?thesis by (metis Suc_leD)
    qed
  qed
qed

text \<open>The six ways a run of \<^verbatim>\<open>configure\<close> past its guard can end.\<close>

lemma configure_run:
  assumes "configure K w = (r, w')" "0 \<le> fd (cam w)" "\<not> configured (cam w)"
  obtains
    (fmt) e where "r = Inl e" "negotiate_format K w = (Inl e, w')"
  | (parm) e w1 where "r = Inl e" "negotiate_format K w = (Inr (), w1)"
      "set_frame_rate K w1 = (Inl e, w')"
  | (req) e w1 w2 where "r = Inl e" "negotiate_format K w = (Inr (), w1)"
      "set_frame_rate K w1 = (Inr (), w2)" "request_buffers K w2 = (Inl e, w')"
  | (maps) e w1 w2 w3 where "r = Inl e" "negotiate_format K w = (Inr (), w1)"
      "set_frame_rate K w1 = (Inr (), w2)" "request_buffers K w2 = (Inr (), w3)"
      "map_buffers K 0 w3 = (Inl e, w')"
  | (enq) e w1 w2 w3 w4 where "r = Inl e" "negotiate_format K w = (Inr (), w1)"
      "set_frame_rate K w1 = (Inr (), w2)" "request_buffers K w2 = (Inr (), w3)"
      "map_buffers K 0 w3 = (Inr (), w4)" "enqueue_buffers K 0 w4 = (Inl e, w')"
  | (ok) w1 w2 w3 w4 w5 where "r = Inr ()" "negotiate_format K w = (Inr (), w1)"
      "set_frame_rate K w1 = (Inr (), w2)" "request_buffers K w2 = (Inr (), w3)"
      "map_buffers K 0 w3 = (Inr (), w4)" "enqueue_buffers K 0 w4 = (Inr (), w5)"
      "w' = w5\<lparr>cam := (cam w5)\<lparr>configured := True\<rparr>\<rparr>"
  using assms
  by (auto simp: configure_def and_then_def split: prod.splits sum.splits)

lemma configure_advances:
  assumes run: "configure K w = (r, w')"
  shows "\<exists>ts. advances w w' ts \<and>
           (\<forall>j \<in> set ts. unat j < unat (buffer_count (config (cam w)))) \<and>
           (0 \<le> fd (cam w) \<and> \<not> configured (cam w) \<and> r = Inr () \<longrightarrow>
              ts = map of_nat ([0..<unat (buffer_count (config (cam w)))]
                     @ [0..<unat (buffer_count (config (cam w)))]))"
proof (cases "0 \<le> fd (cam w) \<and> \<not> configured (cam w)")
  case False
  with run have "w' = w" by (auto simp: configure_def)
  with False advances_refl [of w] show ?thesis by auto
next
  case True
  let ?n = "unat (buffer_count (config (cam w)))"
  from True have g: "0 \<le> fd (cam w)" "\<not> configured (cam w)" by simp_all
  from run g show ?thesis
  proof (cases rule: configure_run)
    case (fmt e)
    then show ?thesis using negotiate_format_advances by fastforce
  next
    case (parm e w1)
    then have "advances w w' []"
      using advances_trans_nil [OF negotiate_format_advances set_frame_rate_advances] by blast
    with parm show ?thesis by fastforce
  next
    case (req e w1 w2)
    then have "advances w w' []"
      using advances_trans_nil [OF negotiate_format_advances
          advances_trans_nil [OF set_frame_rate_advances request_buffers_advances]] by blast
    with req show ?thesis by fastforce
  next
    case (maps e w1 w2 w3)
    then have a3: "advances w w3 []"
      using advances_trans_nil [OF negotiate_format_advances
          advances_trans_nil [OF set_frame_rate_advances request_buffers_advances]] by blast
    then have c3: "config (cam w3) = config (cam w)" by (simp add: advances_def)
    obtain m where m: "m \<le> ?n" "advances w3 w' (map of_nat [0..<m])"
      using map_buffers_advances [OF maps(5)] c3 by auto
    have "advances w w' (map of_nat [0..<m])"
      using advances_trans [OF a3 m(2)] by simp
    moreover have "\<forall>j \<in> set (map of_nat [0..<m] :: u32 list). unat j < ?n"
      using indices_below [OF m(1)] by blast
    ultimately show ?thesis using maps(1) by blast
  next
    case (enq e w1 w2 w3 w4)
    then have a3: "advances w w3 []"
      using advances_trans_nil [OF negotiate_format_advances
          advances_trans_nil [OF set_frame_rate_advances request_buffers_advances]] by blast
    then have c3: "config (cam w3) = config (cam w)" by (simp add: advances_def)
    have a4: "advances w3 w4 (map of_nat [0..<?n])"
      using map_buffers_advances [OF enq(5)] c3 by auto
    then have c4: "config (cam w4) = config (cam w)" using c3 by (simp add: advances_def)
    obtain m where m: "m \<le> ?n" "advances w4 w' (map of_nat [0..<m])"
      using enqueue_buffers_advances [OF enq(6)] c4 by auto
    have a: "advances w w' (map of_nat [0..<?n] @ map of_nat [0..<m])"
      using advances_trans [OF advances_trans [OF a3 a4] m(2)] by simp
    moreover have "\<forall>j \<in> set (map of_nat [0..<?n] @ map of_nat [0..<m] :: u32 list). unat j < ?n"
      using indices_below_append [OF order_refl m(1)] by blast
    ultimately show ?thesis using enq(1) by blast
  next
    case (ok w1 w2 w3 w4 w5)
    then have a3: "advances w w3 []"
      using advances_trans_nil [OF negotiate_format_advances
          advances_trans_nil [OF set_frame_rate_advances request_buffers_advances]] by blast
    then have c3: "config (cam w3) = config (cam w)" by (simp add: advances_def)
    have a4: "advances w3 w4 (map of_nat [0..<?n])"
      using map_buffers_advances [OF ok(5)] c3 by auto
    then have c4: "config (cam w4) = config (cam w)" using c3 by (simp add: advances_def)
    have a5: "advances w4 w5 (map of_nat [0..<?n])"
      using enqueue_buffers_advances [OF ok(6)] c4 by auto
    have a: "advances w w' (map of_nat [0..<?n] @ map of_nat [0..<?n])"
      using advances_trans [OF advances_trans [OF a3 a4] a5] ok(7)
      by (simp add: advances_configured)
    moreover have "\<forall>j \<in> set (map of_nat [0..<?n] @ map of_nat [0..<?n] :: u32 list). unat j < ?n"
      using indices_below_append [OF order_refl order_refl] by blast
    ultimately show ?thesis unfolding map_append by blast
  qed
qed

lemma configure_config: "config (cam (snd (configure K w))) = config (cam w)"
proof -
  obtain r w' where run: "configure K w = (r, w')" by (cases "configure K w")
  from configure_advances [OF run] show ?thesis using run by (auto simp: advances_def)
qed

section \<open>A run of configure that returns\<close>








section \<open>The granted count is not read\<close>




section \<open>The example runs\<close>

lemma replicate_4: "replicate 4 x = [x, x, x, x]"
  by (simp add: eval_nat_numeral)

lemma replicate_2: "replicate 2 x = [x, x]"
  by (simp add: eval_nat_numeral)

lemma fourcc_str_MJPG: "fourcc_str 0x47504A4D = ''MJPG''"
  by (simp add: fourcc_str_def char_of_def bit_0)

lemmas eval_defs = configure_def two_config_def default_config_def kernel_two_buffers_def
    V4L2Camera_def and_then_def negotiate_format_def set_frame_rate_def request_buffers_def
    do_call_def print_def map_buffer_def enqueue_buffer_def map_buffers.simps enqueue_buffers.simps
    DIM_4K_def MJPG_def make_fourcc_def dimensions_decompress_def dimensions_compress_def
    V4L2_PIX_FMT_MJPEG_def V4L2_PIX_FMT_YUYV_def FPS_30_def MAP_FAILED_def nullptr_def
    fourcc_str_MJPG replicate_2 replicate_4 Let_def

lemma configure_two_on_two:
  "configure kernel_two_buffers (opened_world two_config) =
     (Inr (),
      \<lparr>cam =
         \<lparr>config = \<lparr>device_path = ''/dev/video0'', dimension = 0x0F000870,
                    format_cfg = 0x47504A4D, fps_num = 30, buffer_count = 2\<rparr>,
          fd = 3, configured = True, last_buf_index = None,
          buffers = [\<lparr>data = 0x7F0000000000, size_mb = 4096\<rparr>,
                     \<lparr>data = 0x7F0000001000, size_mb = 4096\<rparr>],
          caps = \<lparr>driver = ''uvcvideo'', card_name = ''cam''\<rparr>\<rparr>,
       hw = [ioctl 3 (VIDIOC_S_FMT 3840 2160 0x47504A4D), ioctl 3 VIDIOC_G_FMT,
             ioctl 3 (VIDIOC_S_PARM 1 30), ioctl 3 (VIDIOC_REQBUFS 2),
             ioctl 3 (VIDIOC_QUERYBUF 0), mmap 4096 3 0,
             ioctl 3 (VIDIOC_QUERYBUF 1), mmap 4096 3 4096,
             ioctl 3 (VIDIOC_QBUF 0), ioctl 3 (VIDIOC_QBUF 1)],
       console = [(stdout, ''NEGOTIATED PIXEL FORMAT: MJPG'' @ [CHR 0x0A])]\<rparr>)"
  by (simp add: eval_defs opened_world_def)


lemma streaming_world_eval:
  "streaming_world =
      \<lparr>cam =
         \<lparr>config = \<lparr>device_path = ''/dev/video0'', dimension = 0x0F000870,
                    format_cfg = 0x47504A4D, fps_num = 30, buffer_count = 2\<rparr>,
          fd = 3, configured = True, last_buf_index = None,
          buffers = [\<lparr>data = 0x7F0000000000, size_mb = 4096\<rparr>,
                     \<lparr>data = 0x7F0000001000, size_mb = 4096\<rparr>],
          caps = \<lparr>driver = ''uvcvideo'', card_name = ''cam''\<rparr>\<rparr>,
       hw = [ioctl 3 (VIDIOC_S_FMT 3840 2160 0x47504A4D), ioctl 3 VIDIOC_G_FMT,
             ioctl 3 (VIDIOC_S_PARM 1 30), ioctl 3 (VIDIOC_REQBUFS 2),
             ioctl 3 (VIDIOC_QUERYBUF 0), mmap 4096 3 0,
             ioctl 3 (VIDIOC_QUERYBUF 1), mmap 4096 3 4096,
             ioctl 3 (VIDIOC_QBUF 0), ioctl 3 (VIDIOC_QBUF 1)],
       console = [(stdout, ''NEGOTIATED PIXEL FORMAT: MJPG'' @ [CHR 0x0A])]\<rparr>"
  by (simp add: streaming_world_def configure_two_on_two)

lemma capture_streaming:
  "capture_frame kernel_two_buffers 99 streaming_world =
     (Inr \<lparr>timestamp_monotonic_us = 99, v4l2_timestamp_us = 5000007,
           image_span = \<lparr>span_data = 0x7F0000000000, span_size = 1000\<rparr>,
           width = 3840, height = 2160, format = 0x47504A4D\<rparr>,
      streaming_world\<lparr>cam := (cam streaming_world)\<lparr>last_buf_index := Some 0\<rparr>,
                      hw := hw streaming_world @ [ioctl 3 VIDIOC_DQBUF]\<rparr>)"
  by (simp add: capture_frame_def streaming_world_eval kernel_two_buffers_def do_call_def
      dqbuf_calls_def dimensions_decompress_def Let_def)

lemma captured_world_eval:
  "captured_world =
     streaming_world\<lparr>cam := (cam streaming_world)\<lparr>last_buf_index := Some 0\<rparr>,
                     hw := hw streaming_world @ [ioctl 3 VIDIOC_DQBUF]\<rparr>"
  unfolding captured_world_def by (simp only: capture_streaming snd_conv)

lemma capture_streaming_captured:
  "capture_frame kernel_two_buffers 99 streaming_world =
     (Inr \<lparr>timestamp_monotonic_us = 99, v4l2_timestamp_us = 5000007,
           image_span = \<lparr>span_data = 0x7F0000000000, span_size = 1000\<rparr>,
           width = 3840, height = 2160, format = 0x47504A4D\<rparr>, captured_world)"
  unfolding captured_world_def by (simp only: capture_streaming snd_conv)

lemma release_captured:
  "release_frame kernel_two_buffers captured_world =
     (Inr (),
      streaming_world\<lparr>hw := hw streaming_world @ [ioctl 3 VIDIOC_DQBUF, ioctl 3 (VIDIOC_QBUF 0)]\<rparr>)"
  by (simp add: captured_world_eval release_frame_def do_call_def
      kernel_two_buffers_def streaming_world_eval)

lemma capture_captured:
  "capture_frame kernel_two_buffers 100 captured_world =
     (Inr \<lparr>timestamp_monotonic_us = 100, v4l2_timestamp_us = 5000007,
           image_span = \<lparr>span_data = 0x7F0000001000, span_size = 1000\<rparr>,
           width = 3840, height = 2160, format = 0x47504A4D\<rparr>,
      captured_world\<lparr>cam := (cam captured_world)\<lparr>last_buf_index := Some 1\<rparr>,
                     hw := hw captured_world @ [ioctl 3 VIDIOC_DQBUF]\<rparr>)"
  by (simp add: capture_frame_def captured_world_eval streaming_world_eval kernel_two_buffers_def
      do_call_def dqbuf_calls_def dimensions_decompress_def Let_def)

lemma recaptured_world_eval:
  "recaptured_world =
     captured_world\<lparr>cam := (cam captured_world)\<lparr>last_buf_index := Some 1\<rparr>,
                    hw := hw captured_world @ [ioctl 3 VIDIOC_DQBUF]\<rparr>"
  unfolding recaptured_world_def by (simp only: capture_captured snd_conv)

lemma opened_two_facts:
  "0 \<le> fd (cam (opened_world two_config))"
  "\<not> configured (cam (opened_world two_config))"
  "format_cfg (config (cam (opened_world two_config))) = V4L2_PIX_FMT_MJPEG \<or>
   format_cfg (config (cam (opened_world two_config))) = V4L2_PIX_FMT_YUYV"
  "dimensions_decompress (dimension (config (cam (opened_world two_config)))) = (3840, 2160)"
  "set_format_world =
     do_call (ioctl (fd (cam (opened_world two_config)))
       (VIDIOC_S_FMT 3840 2160 (format_cfg (config (cam (opened_world two_config))))))
       (opened_world two_config)"
  "format_cfg (config (cam (opened_world two_config))) = MJPG"
  "fd (cam (opened_world two_config)) = 3"
  by (simp_all add: opened_world_def two_config_def default_config_def V4L2Camera_def
      set_format_world_def MJPG_def make_fourcc_def V4L2_PIX_FMT_MJPEG_def DIM_4K_def
      dimensions_decompress_def dimensions_compress_def)

section \<open>configure\<close>

text \<open>
  C8. \<^verbatim>\<open>configure\<close> is a no-op when the device was never opened (the descriptor is
  negative) or the engine is already configured: it returns without an exception, makes
  no system call, prints nothing and leaves the engine as it was.
\<close>

theorem configure_noop:
  "fd (cam w) < 0 \<or> configured (cam w) \<Longrightarrow> configure K w = (Inr (), w)"
  by (simp add: configure_def)

text \<open>
  The no-op on a freshly constructed engine (never opened) and on a configured one.
\<close>

theorem configure_noop_witness:
  "(fd (cam (closed_world default_config)) < 0 \<or> configured (cam (closed_world default_config))) \<and>
   configure kernel_two_buffers (closed_world default_config) = (Inr (), closed_world default_config) \<and>
   (fd (cam streaming_world) < 0 \<or> configured (cam streaming_world)) \<and>
   configure kernel_two_buffers streaming_world = (Inr (), streaming_world)"
proof -
  have h1: "fd (cam (closed_world default_config)) < 0 \<or> configured (cam (closed_world default_config))"
    by (simp add: closed_world_def V4L2Camera_def)
  have h2: "fd (cam streaming_world) < 0 \<or> configured (cam streaming_world)"
    by (simp add: streaming_world_eval)
  show ?thesis
    using h1 h2 configure_noop [OF h1, of kernel_two_buffers]
      configure_noop [OF h2, of kernel_two_buffers] by simp
qed




lemma negotiate_format_accepted:
  assumes fmt: "format_cfg (config (cam w)) = V4L2_PIX_FMT_MJPEG \<or>
                format_cfg (config (cam w)) = V4L2_PIX_FMT_YUYV"
    and dim: "dimensions_decompress (dimension (config (cam w))) = (wd, ht)"
    and w1: "w1 = do_call (ioctl (fd (cam w)) (VIDIOC_S_FMT wd ht (format_cfg (config (cam w))))) w"
    and got: "reply_S_FMT K (hw w1) = Inr (format_cfg (config (cam w)))"
    and w4: "w4 = do_call (ioctl (fd (cam w)) VIDIOC_G_FMT)
                    (print stdout (''NEGOTIATED PIXEL FORMAT: ''
                       @ fourcc_str (format_cfg (config (cam w))) @ [CHR 0x0A]) w1)"
  shows "negotiate_format K w =
           (case reply_G_FMT K (hw w4) of
              Inl errno \<Rightarrow> (Inl G_FMT_failed, w4)
            | Inr chk \<Rightarrow>
                if chk \<noteq> format_cfg (config (cam w))
                then (Inl (driver_format_mismatch chk (format_cfg (config (cam w)))), w4)
                else (Inr (), w4))"
  using fmt got [unfolded w1]
  by (auto simp: negotiate_format_def dim w4 w1 do_call_def print_def Let_def
      split: sum.splits)

text \<open>
  C4. Let an opened, unconfigured engine hold a supported encoding, let \<open>w1\<close> be the
  world after its \<^verbatim>\<open>VIDIOC_S_FMT\<close> call and \<open>got\<close> the encoding the driver wrote back.
  If \<open>got\<close> differs from the requested encoding, \<^verbatim>\<open>configure\<close> raises at once, in
  \<open>w1\<close>. Otherwise the held encoding is \<open>got\<close> from then on, the next call is
  \<^verbatim>\<open>VIDIOC_G_FMT\<close> (world \<open>w4\<close>), and \<^verbatim>\<open>configure\<close> raises in \<open>w4\<close> when that call
  fails or reports another encoding than \<open>got\<close>; so a \<^verbatim>\<open>configure\<close> that returns
  has read back exactly the confirmed encoding.
\<close>

theorem configure_verifies_encoding:
  assumes "0 \<le> fd (cam w)" and "\<not> configured (cam w)"
    and "format_cfg (config (cam w)) = V4L2_PIX_FMT_MJPEG \<or>
         format_cfg (config (cam w)) = V4L2_PIX_FMT_YUYV"
    and "dimensions_decompress (dimension (config (cam w))) = (wd, ht)"
    and "w1 = do_call (ioctl (fd (cam w)) (VIDIOC_S_FMT wd ht (format_cfg (config (cam w))))) w"
    and "reply_S_FMT K (hw w1) = Inr got"
    and "w4 = do_call (ioctl (fd (cam w)) VIDIOC_G_FMT)
                (print stdout (''NEGOTIATED PIXEL FORMAT: '' @ fourcc_str got @ [CHR 0x0A]) w1)"
  shows "(got \<noteq> format_cfg (config (cam w)) \<longrightarrow>
            configure K w =
              (Inl (driver_rejected_pixel_format (format_cfg (config (cam w))) got), w1)) \<and>
         (got = format_cfg (config (cam w)) \<longrightarrow>
            format_cfg (config (cam (snd (configure K w)))) = got \<and>
            (\<forall>e. reply_G_FMT K (hw w4) = Inl e \<longrightarrow> configure K w = (Inl G_FMT_failed, w4)) \<and>
            (\<forall>chk. reply_G_FMT K (hw w4) = Inr chk \<and> chk \<noteq> got \<longrightarrow>
               configure K w = (Inl (driver_format_mismatch chk got), w4)) \<and>
            (fst (configure K w) = Inr () \<longrightarrow> reply_G_FMT K (hw w4) = Inr got))"
proof (intro conjI impI)
  assume ne: "got \<noteq> format_cfg (config (cam w))"
  have "negotiate_format K w =
      (Inl (driver_rejected_pixel_format (format_cfg (config (cam w))) got), w1)"
    using assms(3,6) ne
    by (auto simp: negotiate_format_def assms(4) assms(5) [symmetric] Let_def)
  then show "configure K w =
      (Inl (driver_rejected_pixel_format (format_cfg (config (cam w))) got), w1)"
    using assms(1,2) by (simp add: configure_def and_then_def)
next
  assume eq: "got = format_cfg (config (cam w))"
  show "format_cfg (config (cam (snd (configure K w)))) = got"
    by (simp add: configure_config eq)
  have neg: "negotiate_format K w =
           (case reply_G_FMT K (hw w4) of
              Inl errno \<Rightarrow> (Inl G_FMT_failed, w4)
            | Inr chk \<Rightarrow>
                if chk \<noteq> got then (Inl (driver_format_mismatch chk got), w4)
                else (Inr (), w4))"
    unfolding eq
    by (rule negotiate_format_accepted [OF assms(3,4,5) assms(6) [unfolded eq] assms(7) [unfolded eq]])
  have cfg: "configure K w = and_then (negotiate_format K w) (\<lambda>w1.
        and_then (set_frame_rate K w1) (\<lambda>w2.
        and_then (request_buffers K w2) (\<lambda>w3.
        and_then (map_buffers K 0 w3) (\<lambda>w4.
        and_then (enqueue_buffers K 0 w4) (\<lambda>w5.
          (Inr (), w5\<lparr>cam := (cam w5)\<lparr>configured := True\<rparr>\<rparr>))))))"
    using assms(1,2) by (simp add: configure_def)
  show fail1: "\<forall>e. reply_G_FMT K (hw w4) = Inl e \<longrightarrow> configure K w = (Inl G_FMT_failed, w4)"
    by (simp add: cfg neg and_then_def)
  show fail2: "\<forall>chk. reply_G_FMT K (hw w4) = Inr chk \<and> chk \<noteq> got \<longrightarrow>
               configure K w = (Inl (driver_format_mismatch chk got), w4)"
    by (simp add: cfg neg and_then_def)
  assume ok: "fst (configure K w) = Inr ()"
  show "reply_G_FMT K (hw w4) = Inr got"
  proof (cases "reply_G_FMT K (hw w4)")
    case (Inl e)
    with fail1 ok show ?thesis by simp
  next
    case (Inr chk)
    with fail2 ok show ?thesis by (cases "chk = got") simp_all
  qed
qed

text \<open>
  Three runs on the opened two-buffer engine, which requests MJPEG: a driver that answers
  YUYV to the set-format request is rejected at once; a driver that accepts MJPEG and
  then reports YUYV as the live format is rejected after the re-query; the well-behaved
  device is accepted, and the engine holds MJPEG.
\<close>

theorem configure_verifies_encoding_witness:
  "reply_S_FMT kernel_substitutes (hw set_format_world) = Inr V4L2_PIX_FMT_YUYV \<and>
   V4L2_PIX_FMT_YUYV \<noteq> MJPG \<and>
   configure kernel_substitutes (opened_world two_config) =
     (Inl (driver_rejected_pixel_format MJPG V4L2_PIX_FMT_YUYV), set_format_world) \<and>
   reply_S_FMT kernel_reverts (hw set_format_world) = Inr MJPG \<and>
   reply_G_FMT kernel_reverts (hw get_format_world) = Inr V4L2_PIX_FMT_YUYV \<and>
   configure kernel_reverts (opened_world two_config) =
     (Inl (driver_format_mismatch V4L2_PIX_FMT_YUYV MJPG), get_format_world) \<and>
   reply_S_FMT kernel_two_buffers (hw set_format_world) = Inr MJPG \<and>
   fst (configure kernel_two_buffers (opened_world two_config)) = Inr () \<and>
   format_cfg (config (cam (snd (configure kernel_two_buffers (opened_world two_config))))) = MJPG \<and>
   reply_G_FMT kernel_two_buffers (hw get_format_world) = Inr MJPG"
proof -
  note f = opened_two_facts
  have g: "get_format_world =
      do_call (ioctl (fd (cam (opened_world two_config))) VIDIOC_G_FMT)
        (print stdout (''NEGOTIATED PIXEL FORMAT: '' @ fourcc_str MJPG @ [CHR 0x0A]) set_format_world)"
    by (simp add: get_format_world_def f(7))
  have s1: "reply_S_FMT kernel_substitutes (hw set_format_world) = Inr V4L2_PIX_FMT_YUYV"
    by (simp add: kernel_substitutes_def)
  have ne: "V4L2_PIX_FMT_YUYV \<noteq> MJPG"
    by (simp add: V4L2_PIX_FMT_YUYV_def MJPG_def make_fourcc_def)
  have s2: "reply_S_FMT kernel_reverts (hw set_format_world) = Inr MJPG"
    by (simp add: kernel_reverts_def kernel_two_buffers_def set_format_world_def do_call_def)
  have g2: "reply_G_FMT kernel_reverts (hw get_format_world) = Inr V4L2_PIX_FMT_YUYV"
    by (simp add: kernel_reverts_def)
  have s3: "reply_S_FMT kernel_two_buffers (hw set_format_world) = Inr MJPG"
    by (simp add: kernel_two_buffers_def set_format_world_def do_call_def)
  have ok: "fst (configure kernel_two_buffers (opened_world two_config)) = Inr ()"
    by (simp add: configure_two_on_two)
  define w4s where "w4s = do_call (ioctl (fd (cam (opened_world two_config))) VIDIOC_G_FMT)
        (print stdout (''NEGOTIATED PIXEL FORMAT: '' @ fourcc_str V4L2_PIX_FMT_YUYV @ [CHR 0x0A])
           set_format_world)"
  have t1: "configure kernel_substitutes (opened_world two_config) =
     (Inl (driver_rejected_pixel_format MJPG V4L2_PIX_FMT_YUYV), set_format_world)"
    using configure_verifies_encoding [OF f(1) f(2) f(3) f(4) f(5) s1 w4s_def] ne f(6) by simp
  have t2: "configure kernel_reverts (opened_world two_config) =
     (Inl (driver_format_mismatch V4L2_PIX_FMT_YUYV MJPG), get_format_world)"
    using configure_verifies_encoding [OF f(1) f(2) f(3) f(4) f(5) s2 g] ne f(6) g2 by simp
  have t3: "format_cfg (config (cam (snd (configure kernel_two_buffers (opened_world two_config))))) = MJPG \<and>
      reply_G_FMT kernel_two_buffers (hw get_format_world) = Inr MJPG"
    using configure_verifies_encoding [OF f(1) f(2) f(3) f(4) f(5) s3 g] f(6) ok by simp
  show ?thesis using s1 ne t1 s2 g2 t2 s3 ok t3 by blast
qed

section \<open>capture_frame and release_frame\<close>




text \<open>
  C5. When no buffer is outstanding, \<^verbatim>\<open>release_frame\<close> prints its warning on the
  error stream and returns without an exception; it makes no system call, so nothing is
  requeued, and the engine is unchanged.
\<close>

theorem release_frame_nothing_outstanding:
  "last_buf_index (cam w) = None \<Longrightarrow>
     release_frame K w = (Inr (), w\<lparr>console := console w @ [(stderr, warn_release)]\<rparr>) \<and>
     cam (snd (release_frame K w)) = cam w \<and> hw (snd (release_frame K w)) = hw w"
  by (simp add: release_frame_def print_def warn_release_def)

text \<open>A release on the configured engine before any capture.\<close>

theorem release_frame_nothing_outstanding_witness:
  "last_buf_index (cam streaming_world) = None \<and>
   release_frame kernel_two_buffers streaming_world =
     (Inr (), streaming_world\<lparr>console := console streaming_world @ [(stderr, warn_release)]\<rparr>) \<and>
   cam (snd (release_frame kernel_two_buffers streaming_world)) = cam streaming_world \<and>
   hw (snd (release_frame kernel_two_buffers streaming_world)) = hw streaming_world"
proof -
  have h: "last_buf_index (cam streaming_world) = None" by (simp add: streaming_world_eval)
  show ?thesis
    using h release_frame_nothing_outstanding [OF h, of kernel_two_buffers] by blast
qed

text \<open>
  C6. After a \<^verbatim>\<open>capture_frame\<close> that returns a view, \<^verbatim>\<open>has_valid_frame\<close> is true;
  after a following \<^verbatim>\<open>release_frame\<close> that returns, it is false; and one more
  \<^verbatim>\<open>release_frame\<close> then returns without a system call and leaves the engine as it is.
\<close>

theorem has_valid_frame_tracks_cycle:
  "capture_frame K now w = (Inr v, w1) \<Longrightarrow>
     has_valid_frame (cam w1) \<and>
     (\<forall>w2. release_frame K w1 = (Inr (), w2) \<longrightarrow>
        \<not> has_valid_frame (cam w2) \<and>
        fst (release_frame K w2) = Inr () \<and>
        hw (snd (release_frame K w2)) = hw w2 \<and>
        cam (snd (release_frame K w2)) = cam w2)"
  by (auto simp: capture_frame_def release_frame_def has_valid_frame_def do_call_def print_def
      Let_def split: sum.splits if_splits prod.splits option.splits)

text \<open>One capture and release on the configured engine, and a second release.\<close>

theorem has_valid_frame_tracks_cycle_witness:
  "capture_frame kernel_two_buffers 99 streaming_world =
     (Inr \<lparr>timestamp_monotonic_us = 99, v4l2_timestamp_us = 5000007,
           image_span = \<lparr>span_data = 0x7F0000000000, span_size = 1000\<rparr>,
           width = 3840, height = 2160, format = 0x47504A4D\<rparr>, captured_world) \<and>
   has_valid_frame (cam captured_world) \<and>
   release_frame kernel_two_buffers captured_world = (Inr (), released_world) \<and>
   \<not> has_valid_frame (cam released_world) \<and>
   fst (release_frame kernel_two_buffers released_world) = Inr () \<and>
   hw (snd (release_frame kernel_two_buffers released_world)) = hw released_world"
proof -
  note c = capture_streaming_captured
  have r: "release_frame kernel_two_buffers captured_world = (Inr (), released_world)"
    by (simp add: released_world_def release_captured)
  show ?thesis
    using c r has_valid_frame_tracks_cycle [OF c] by blast
qed

text \<open>
  C9. When the requeue inside \<^verbatim>\<open>release_frame\<close> fails, \<^verbatim>\<open>release_frame\<close> raises,
  the engine is unchanged and the marker still holds the same index, and a later
  \<^verbatim>\<open>release_frame\<close> (whatever the kernel answers then) requeues that index again.
\<close>

theorem release_frame_requeue_failure:
  "last_buf_index (cam w) = Some i \<Longrightarrow>
   reply_QBUF K (hw w @ [ioctl (fd (cam w)) (VIDIOC_QBUF i)]) = Inl e \<Longrightarrow>
     release_frame K w =
       (Inl (QBUF_failed_for i), w\<lparr>hw := hw w @ [ioctl (fd (cam w)) (VIDIOC_QBUF i)]\<rparr>) \<and>
     cam (snd (release_frame K w)) = cam w \<and>
     last_buf_index (cam (snd (release_frame K w))) = Some i \<and>
     hw (snd (release_frame K' (snd (release_frame K w)))) =
       hw w @ [ioctl (fd (cam w)) (VIDIOC_QBUF i), ioctl (fd (cam w)) (VIDIOC_QBUF i)]"
  by (simp add: release_frame_def do_call_def Let_def split: sum.splits)

text \<open>A failed release of buffer 0 after one capture, and the retry.\<close>

theorem release_frame_requeue_failure_witness:
  "last_buf_index (cam captured_world) = Some 0 \<and>
   reply_QBUF kernel_qbuf_fails (hw captured_world @ [ioctl (fd (cam captured_world)) (VIDIOC_QBUF 0)]) = Inl 5 \<and>
   release_frame kernel_qbuf_fails captured_world =
     (Inl (QBUF_failed_for 0),
      captured_world\<lparr>hw := hw captured_world @ [ioctl (fd (cam captured_world)) (VIDIOC_QBUF 0)]\<rparr>) \<and>
   last_buf_index (cam (snd (release_frame kernel_qbuf_fails captured_world))) = Some 0 \<and>
   hw (snd (release_frame kernel_two_buffers (snd (release_frame kernel_qbuf_fails captured_world)))) =
     hw captured_world @ [ioctl (fd (cam captured_world)) (VIDIOC_QBUF 0),
                          ioctl (fd (cam captured_world)) (VIDIOC_QBUF 0)]"
proof -
  have h1: "last_buf_index (cam captured_world) = Some 0"
    by (simp add: captured_world_eval)
  have h2: "reply_QBUF kernel_qbuf_fails
      (hw captured_world @ [ioctl (fd (cam captured_world)) (VIDIOC_QBUF 0)]) = Inl 5"
    by (simp add: kernel_qbuf_fails_def)
  show ?thesis
    using h1 h2 release_frame_requeue_failure [OF h1 h2, of kernel_two_buffers] by blast
qed

text \<open>
  C10. \<^verbatim>\<open>capture_frame\<close> does not check that no buffer is outstanding. Whenever
  the dequeue succeeds with an index inside the pool, it returns a view, whatever the
  marker holds (also when it holds the very index dequeued): the view is the one it
  returns with nothing outstanding, and the marker is overwritten with the newly
  dequeued index. The next \<^verbatim>\<open>release_frame\<close> requeues that index and no other, and
  when it returns the marker is empty, so the buffer that was outstanding before is not
  requeued by \<^verbatim>\<open>release_frame\<close>.
\<close>

theorem capture_frame_overwrites_marker:
  "last_buf_index (cam w) = Some j \<Longrightarrow>
   reply_DQBUF K (hw w @ [ioctl (fd (cam w)) VIDIOC_DQBUF]) = Inr buf \<Longrightarrow>
   unat (index buf) < length (buffers (cam w)) \<Longrightarrow>
     (\<exists>v. capture_frame K now w =
             (Inr v, w\<lparr>cam := (cam w)\<lparr>last_buf_index := Some (index buf)\<rparr>,
                       hw := hw w @ [ioctl (fd (cam w)) VIDIOC_DQBUF]\<rparr>) \<and>
           fst (capture_frame K now (w\<lparr>cam := (cam w)\<lparr>last_buf_index := None\<rparr>\<rparr>)) = Inr v \<and>
           span_data (image_span v) = data (buffers (cam w) ! unat (index buf))) \<and>
     last_buf_index (cam (snd (capture_frame K now w))) = Some (index buf) \<and>
     hw (snd (release_frame K' (snd (capture_frame K now w)))) =
       hw w @ [ioctl (fd (cam w)) VIDIOC_DQBUF, ioctl (fd (cam w)) (VIDIOC_QBUF (index buf))] \<and>
     (\<forall>w''. release_frame K' (snd (capture_frame K now w)) = (Inr (), w'') \<longrightarrow>
        last_buf_index (cam w'') = None)"
  by (auto simp: capture_frame_def release_frame_def do_call_def Let_def
      split: sum.splits if_splits prod.splits)

text \<open>
  A second capture while buffer 0 is outstanding: it returns a view of buffer 1, the
  marker becomes 1, and the release requeues buffer 1.
\<close>

theorem capture_frame_overwrites_marker_witness:
  "last_buf_index (cam captured_world) = Some 0 \<and>
   reply_DQBUF kernel_two_buffers (hw captured_world @ [ioctl (fd (cam captured_world)) VIDIOC_DQBUF]) =
     Inr \<lparr>index = 1, bytesused = 1000, tv_sec = 5, tv_usec = 7\<rparr> \<and>
   unat (index \<lparr>index = 1 :: u32, bytesused = 1000 :: u32, tv_sec = 5 :: u64, tv_usec = 7 :: u64\<rparr>)
     < length (buffers (cam captured_world)) \<and>
   capture_frame kernel_two_buffers 100 captured_world =
     (Inr \<lparr>timestamp_monotonic_us = 100, v4l2_timestamp_us = 5000007,
           image_span = \<lparr>span_data = 0x7F0000001000, span_size = 1000\<rparr>,
           width = 3840, height = 2160, format = 0x47504A4D\<rparr>, recaptured_world) \<and>
   last_buf_index (cam (snd (capture_frame kernel_two_buffers 100 captured_world))) =
     Some (index \<lparr>index = 1 :: u32, bytesused = 1000 :: u32, tv_sec = 5 :: u64, tv_usec = 7 :: u64\<rparr>) \<and>
   hw (snd (release_frame kernel_two_buffers (snd (capture_frame kernel_two_buffers 100 captured_world)))) =
     hw captured_world @ [ioctl (fd (cam captured_world)) VIDIOC_DQBUF,
       ioctl (fd (cam captured_world))
         (VIDIOC_QBUF (index \<lparr>index = 1 :: u32, bytesused = 1000 :: u32, tv_sec = 5 :: u64, tv_usec = 7 :: u64\<rparr>))]"
proof -
  have h: "last_buf_index (cam captured_world) = Some 0"
    by (simp add: captured_world_eval)
  have r: "reply_DQBUF kernel_two_buffers
      (hw captured_world @ [ioctl (fd (cam captured_world)) VIDIOC_DQBUF]) =
     Inr \<lparr>index = 1, bytesused = 1000, tv_sec = 5, tv_usec = 7\<rparr>"
    by (simp add: kernel_two_buffers_def dqbuf_calls_def captured_world_eval streaming_world_eval)
  have b: "unat (index \<lparr>index = 1 :: u32, bytesused = 1000 :: u32, tv_sec = 5 :: u64, tv_usec = 7 :: u64\<rparr>)
     < length (buffers (cam captured_world))"
    by (simp add: captured_world_eval streaming_world_eval)
  have c: "capture_frame kernel_two_buffers 100 captured_world =
     (Inr \<lparr>timestamp_monotonic_us = 100, v4l2_timestamp_us = 5000007,
           image_span = \<lparr>span_data = 0x7F0000001000, span_size = 1000\<rparr>,
           width = 3840, height = 2160, format = 0x47504A4D\<rparr>, recaptured_world)"
    unfolding recaptured_world_def by (simp only: capture_captured snd_conv)
  show ?thesis
    using h r b c capture_frame_overwrites_marker [OF h r b, of 100 kernel_two_buffers]
    by blast
qed

section \<open>The move operations\<close>

text \<open>
  C3. The claim is that a moved-from engine holds no device handle and no mapped
  buffers, so that destroying it releases nothing of the new owner. The evaluation below
  is of the code: the configured two-buffer engine is move-assigned to a fresh engine.
  The source's descriptor becomes -1, but the source keeps both buffer entries, the same
  valid mappings the new owner now holds, and the source's \<^verbatim>\<open>cleanup\<close> (its
  destructor) unmaps both. Move construction of the same engine writes
  \<^verbatim>\<open>buffers_[0]\<close> of an empty vector, and its source keeps both mappings too.
\<close>

theorem move_assign_source_keeps_mappings:
  "fst (move_assign (closed_world two_config) (cam streaming_world)) = Inr () \<and>
   buffers (cam (fst (snd (move_assign (closed_world two_config) (cam streaming_world))))) =
     [\<lparr>data = 0x7F0000000000, size_mb = 4096\<rparr>, \<lparr>data = 0x7F0000001000, size_mb = 4096\<rparr>] \<and>
   fd (cam (fst (snd (move_assign (closed_world two_config) (cam streaming_world))))) = 3 \<and>
   fd (snd (snd (move_assign (closed_world two_config) (cam streaming_world)))) = - 1 \<and>
   buffers (snd (snd (move_assign (closed_world two_config) (cam streaming_world)))) =
     [\<lparr>data = 0x7F0000000000, size_mb = 4096\<rparr>, \<lparr>data = 0x7F0000001000, size_mb = 4096\<rparr>] \<and>
   list_all is_valid (buffers (snd (snd (move_assign (closed_world two_config) (cam streaming_world))))) \<and>
   hw (cleanup \<lparr>cam = snd (snd (move_assign (closed_world two_config) (cam streaming_world))),
                hw = [], console = []\<rparr>) =
     [munmap 0x7F0000000000 4096, munmap 0x7F0000001000 4096] \<and>
   fst (move_construct False (cam streaming_world)) = Inl (vector_out_of_range 0) \<and>
   list_all is_valid (buffers (snd (move_construct False (cam streaming_world))))"
  by (simp add: move_assign_def move_construct_def cleanup_def closed_world_def two_config_def
      default_config_def V4L2Camera_def streaming_world_eval moved_from_def copy_buffers.simps
      replicate_2 is_valid_def nullptr_def MAP_FAILED_def do_call_def Let_def)

end
